theory Spec2Isabelle
  imports Main "HOL-Library.Word"
begin

unbundle bit_operations_syntax

section \<open>The heart-rate monitor of \<^verbatim>\<open>src/main.py\<close>\<close>

text \<open>
  The program scans for Bluetooth peripherals that advertise the Heart Rate Service,
  decodes Heart Rate Measurement notifications, keeps the decoded samples in a bounded
  list and writes one CSV row per sample. This theory embeds the decoding
  (\<^verbatim>\<open>parse_heart_rate_data\<close>), the history and CSV writing
  (\<^verbatim>\<open>init_csv_file\<close>, \<^verbatim>\<open>save_heart_rate_data\<close>), the scan callback
  (\<^verbatim>\<open>detection_callback\<close>) and the notification callback
  (\<^verbatim>\<open>notification_handler\<close>).

  What lies outside the Python source is made explicit as follows.
  \<^item> Every \<^verbatim>\<open>datetime.now()\<close> is a read of the machine's clock. The value read is an
    extra argument of the function that performs the read; it is not an argument of the
    Python function.
  \<^item> \<^verbatim>\<open>print\<close> appends a line to the standard output, kept as a list. The fixed texts
    of the lines are constructors; the interpolated values are their arguments.
  \<^item> A file object holds the rows written to it that are still in its buffer and the rows
    already flushed. \<^verbatim>\<open>open\<close>, \<^verbatim>\<open>writerow\<close> and \<^verbatim>\<open>flush\<close> are taken to succeed:
    failures of the operating system and writes to a closed file are not part of the model.
\<close>

subsection \<open>Clock readings and their formats\<close>

record datetime =
  year :: nat
  month :: nat
  day :: nat
  hour :: nat
  minute :: nat
  second :: nat
  microsecond :: nat

definition digit :: "nat \<Rightarrow> char" where
  "digit n = ''0123456789'' ! (n mod 10)"

fun dec :: "nat \<Rightarrow> string" where
  "dec n = (if n < 10 then [digit n] else dec (n div 10) @ [digit (n mod 10)])"

declare dec.simps [simp del]

text \<open>The conversion \<^verbatim>\<open>%0kd\<close>: decimal, padded with zeros on the left to width \<open>k\<close>.\<close>

definition zpad :: "nat \<Rightarrow> nat \<Rightarrow> string" where
  "zpad k n = replicate (k - length (dec n)) (CHR ''0'') @ dec n"

text \<open>\<^verbatim>\<open>strftime("%H:%M:%S")\<close>, lines 64 and 151.\<close>

definition strftime_HMS :: "datetime \<Rightarrow> string" where
  "strftime_HMS t = zpad 2 (hour t) @ '':'' @ zpad 2 (minute t) @ '':'' @ zpad 2 (second t)"

text \<open>\<^verbatim>\<open>strftime("%Y%m%d_%H%M%S")\<close>, line 25.\<close>

definition strftime_Ymd_HMS :: "datetime \<Rightarrow> string" where
  "strftime_Ymd_HMS t =
     zpad 4 (year t) @ zpad 2 (month t) @ zpad 2 (day t) @ ''_'' @
     zpad 2 (hour t) @ zpad 2 (minute t) @ zpad 2 (second t)"

text \<open>\<^verbatim>\<open>isoformat()\<close>, line 55: the fraction is left out when the microsecond is 0.\<close>

definition isoformat :: "datetime \<Rightarrow> string" where
  "isoformat t =
     zpad 4 (year t) @ ''-'' @ zpad 2 (month t) @ ''-'' @ zpad 2 (day t) @ ''T'' @
     zpad 2 (hour t) @ '':'' @ zpad 2 (minute t) @ '':'' @ zpad 2 (second t) @
     (if microsecond t = 0 then [] else ''.'' @ zpad 6 (microsecond t))"

subsection \<open>Decoding a measurement (lines 32 to 56)\<close>

text \<open>
  The payload is a \<^verbatim>\<open>bytes\<close> value: its elements are integers from 0 to 255. The
  dictionary that is returned has either the single key \<^verbatim>\<open>error\<close> (its text says that
  the data is too short) or the four keys of a sample; the caller tells them apart by
  the presence of the key \<^verbatim>\<open>error\<close>. \<^verbatim>\<open>sensor_contact\<close> is \<^verbatim>\<open>None\<close>, \<^verbatim>\<open>True\<close>
  or \<^verbatim>\<open>False\<close>.
\<close>

type_synonym byte = "8 word"

datatype parse_error = DataLengthInsufficient

record sample =
  heart_rate :: int
  sensor_contact :: "bool option"
  flag :: byte
  timestamp :: string

definition parse_heart_rate_data :: "datetime \<Rightarrow> byte list \<Rightarrow> parse_error + sample" where
  "parse_heart_rate_data now data =
     (if length data < 2 then Inl DataLengthInsufficient
      else
        let flag = data ! 0;
            heart_rate_value = uint (data ! 1);
            heart_rate_value =
              (if flag AND 1 \<noteq> 0
               then (if length data \<ge> 3
                     then heart_rate_value OR push_bit 8 (uint (data ! 2))
                     else heart_rate_value)
               else heart_rate_value);
            sensor_contact = (if flag AND 4 \<noteq> 0 then Some (flag AND 2 \<noteq> 0) else None)
        in Inr \<lparr>heart_rate = heart_rate_value,
                sensor_contact = sensor_contact,
                flag = flag,
                timestamp = isoformat now\<rparr>)"

subsection \<open>The monitor object (lines 13 to 30 and 58 to 70)\<close>

datatype csv_field = CsvStr string | CsvInt int

type_synonym csv_row = "csv_field list"

record file_obj =
  file_name :: string
  buffered :: "csv_row list"
  flushed :: "csv_row list"

text \<open>
  The writer of line 28 is built over \<^verbatim>\<open>self.csv_file\<close> and has no state of its own.
  The two attributes are assigned together, in \<^verbatim>\<open>__init__\<close> and in
  \<^verbatim>\<open>init_csv_file\<close> only, so the rows a writer writes go to the file object held in
  \<^verbatim>\<open>csv_file\<close>.
\<close>

datatype csv_writer = Writer

datatype ble_client = BleakClient string

record ble_device =
  address :: string
  name :: "string option"

record monitor =
  client :: "ble_client option"
  device :: "ble_device option"
  heart_rate_history :: "sample list"
  is_connected :: bool
  csv_filename :: "string option"
  csv_writer :: "csv_writer option"
  csv_file :: "file_obj option"

datatype py_exception = AttributeError

text \<open>The lines the program prints: lines 30, 80, 90, 153 and 156 of the source.\<close>

datatype log_line =
    SavingTo string
  | Scanning
  | FoundDevice "string option" string
  | HeartRateLine string int
  | HandlerError py_exception

record world =
  mon :: monitor
  out :: "log_line list"

definition HeartRateMonitor_init :: monitor where
  "HeartRateMonitor_init =
     \<lparr>client = None, device = None, heart_rate_history = [], is_connected = False,
      csv_filename = None, csv_writer = None, csv_file = None\<rparr>"

definition writerow :: "csv_row \<Rightarrow> file_obj \<Rightarrow> file_obj" where
  "writerow row f = f\<lparr>buffered := buffered f @ [row]\<rparr>"

definition flush :: "file_obj \<Rightarrow> file_obj" where
  "flush f = f\<lparr>flushed := flushed f @ buffered f, buffered := []\<rparr>"

text \<open>The rows of the file in the order they were written, flushed or not.\<close>

definition file_rows :: "file_obj \<Rightarrow> csv_row list" where
  "file_rows f = flushed f @ buffered f"

text \<open>Mode \<^verbatim>\<open>'w'\<close> of line 27: the file starts empty.\<close>

definition init_csv_file :: "datetime \<Rightarrow> world \<Rightarrow> world" where
  "init_csv_file now w =
     (let timestamp = strftime_Ymd_HMS now;
          fname = ''heart_rate_'' @ timestamp @ ''.csv'';
          f = \<lparr>file_name = fname, buffered = [], flushed = []\<rparr>;
          f = writerow [CsvStr ''time'', CsvStr ''rate''] f
      in w\<lparr>mon := (mon w)\<lparr>csv_filename := Some fname,
                             csv_file := Some f,
                             csv_writer := Some Writer\<rparr>,
            out := out w @ [SavingTo fname]\<rparr>)"

text \<open>
  The slice \<^verbatim>\<open>xs[-n:]\<close> for positive \<open>n\<close>: the last \<open>n\<close> elements, or all of them when
  there are fewer.
\<close>

definition slice_last :: "nat \<Rightarrow> 'a list \<Rightarrow> 'a list" where
  "slice_last n xs = (if length xs \<le> n then xs else drop (length xs - n) xs)"

text \<open>
  Lines 63 to 66. With a writer and no file object, line 66 raises
  \<^verbatim>\<open>AttributeError\<close>; the exception leaves the method with the monitor as it is then.
\<close>

definition write_csv_row :: "datetime \<Rightarrow> sample \<Rightarrow> monitor \<Rightarrow> (py_exception \<times> monitor) + monitor" where
  "write_csv_row now data self =
     (if csv_writer self \<noteq> None
      then (let time_str = strftime_HMS now in
            case csv_file self of
              None \<Rightarrow> Inl (AttributeError, self)
            | Some f \<Rightarrow>
                Inr (self\<lparr>csv_file :=
                       Some (flush (writerow [CsvStr time_str, CsvInt (heart_rate data)] f))\<rparr>))
      else Inr self)"

definition save_heart_rate_data :: "datetime \<Rightarrow> sample \<Rightarrow> monitor \<Rightarrow> (py_exception \<times> monitor) + monitor" where
  "save_heart_rate_data now data self =
     (let self = self\<lparr>heart_rate_history := heart_rate_history self @ [data]\<rparr> in
      case write_csv_row now data self of
        Inl raised \<Rightarrow> Inl raised
      | Inr self \<Rightarrow>
          Inr (if length (heart_rate_history self) > 1000
               then self\<lparr>heart_rate_history := slice_last 500 (heart_rate_history self)\<rparr>
               else self))"

text \<open>
  A run of calls of \<^verbatim>\<open>save_heart_rate_data\<close>, each with the clock reading of its
  line 64; an exception ends the run.
\<close>

fun save_all :: "(datetime \<times> sample) list \<Rightarrow> monitor \<Rightarrow> (py_exception \<times> monitor) + monitor" where
  "save_all [] self = Inr self"
| "save_all ((now, data) # rest) self =
     (case save_heart_rate_data now data self of
        Inl raised \<Rightarrow> Inl raised
      | Inr self \<Rightarrow> save_all rest self)"

subsection \<open>The notification callback (lines 143 to 156)\<close>

text \<open>The three clock reads of one notification: lines 55, 64 and 151.\<close>

record clock_reads =
  at_parse :: datetime
  at_save :: datetime
  at_print :: datetime

definition notification_handler :: "clock_reads \<Rightarrow> byte list \<Rightarrow> world \<Rightarrow> world" where
  "notification_handler clk data w =
     (case parse_heart_rate_data (at_parse clk) data of
        Inl err \<Rightarrow> w
      | Inr parsed_data \<Rightarrow>
          (case save_heart_rate_data (at_save clk) parsed_data (mon w) of
             Inl (e, self) \<Rightarrow> w\<lparr>mon := self, out := out w @ [HandlerError e]\<rparr>
           | Inr self \<Rightarrow>
               (let time_str = strftime_HMS (at_print clk);
                    hr = heart_rate parsed_data
                in w\<lparr>mon := self, out := out w @ [HeartRateLine time_str hr]\<rparr>)))"

fun handle_all :: "(clock_reads \<times> byte list) list \<Rightarrow> world \<Rightarrow> world" where
  "handle_all [] w = w"
| "handle_all ((clk, data) # rest) w = handle_all rest (notification_handler clk data w)"

text \<open>
  The samples the callback saves in a run of notifications, each with the clock reading of
  its save: those of the payloads that decode.
\<close>

fun saved_samples :: "(clock_reads \<times> byte list) list \<Rightarrow> (datetime \<times> sample) list" where
  "saved_samples [] = []"
| "saved_samples ((clk, data) # rest) =
     (case parse_heart_rate_data (at_parse clk) data of
        Inl err \<Rightarrow> saved_samples rest
      | Inr parsed_data \<Rightarrow> (at_save clk, parsed_data) # saved_samples rest)"

subsection \<open>The scan (lines 78 to 97)\<close>

definition HRS_UUID :: string where
  "HRS_UUID = ''0000180d-0000-1000-8000-00805f9b34fb''"

record advertisement_data =
  service_uuids :: "string list"

text \<open>
  \<^verbatim>\<open>devices_dict\<close> is a dictionary, which keeps its keys in the order of their first
  insertion: an association list. \<^verbatim>\<open>device.name or ...\<close> replaces a missing or empty
  name by a fixed text, here \<open>None\<close>.
\<close>

record scan_state =
  devices_dict :: "(string \<times> ble_device) list"
  printed :: "log_line list"

definition name_or_unknown :: "ble_device \<Rightarrow> string option" where
  "name_or_unknown d = (case name d of None \<Rightarrow> None | Some n \<Rightarrow> if n = [] then None else Some n)"

definition detection_callback :: "ble_device \<Rightarrow> advertisement_data \<Rightarrow> scan_state \<Rightarrow> scan_state" where
  "detection_callback d advertisement st =
     (if HRS_UUID \<in> set (service_uuids advertisement)
      then (if address d \<notin> fst ` set (devices_dict st)
            then st\<lparr>devices_dict := devices_dict st @ [(address d, d)],
                    printed := printed st @ [FoundDevice (name_or_unknown d) (address d)]\<rparr>
            else st)
      else st)"

fun deliver :: "(ble_device \<times> advertisement_data) list \<Rightarrow> scan_state \<Rightarrow> scan_state" where
  "deliver [] st = st"
| "deliver ((d, advertisement) # rest) st = deliver rest (detection_callback d advertisement st)"

text \<open>
  The argument is the sequence of advertisements the scanner delivers to the callback
  between \<^verbatim>\<open>start\<close> and \<^verbatim>\<open>stop\<close>. The result is \<^verbatim>\<open>list(devices_dict.values())\<close> and
  what was printed.
\<close>

definition scan_for_heart_rate_devices ::
  "(ble_device \<times> advertisement_data) list \<Rightarrow> ble_device list \<times> log_line list" where
  "scan_for_heart_rate_devices advertisements =
     (let st = deliver advertisements \<lparr>devices_dict = [], printed = [Scanning]\<rparr>
      in (map snd (devices_dict st), printed st))"

subsection \<open>The registry as the specification words it\<close>

text \<open>
  An advertisement is accepted when the Heart Rate Service is among its services; of the
  accepted devices, the first one of each address is kept, in the order of arrival.
\<close>

definition accepted_devices :: "(ble_device \<times> advertisement_data) list \<Rightarrow> ble_device list" where
  "accepted_devices advertisements =
     map fst (filter (\<lambda>(d, advertisement). HRS_UUID \<in> set (service_uuids advertisement)) advertisements)"

fun first_per_address :: "ble_device list \<Rightarrow> ble_device list" where
  "first_per_address [] = []"
| "first_per_address (d # ds) = d # first_per_address (filter (\<lambda>e. address e \<noteq> address d) ds)"

section \<open>Properties of the decoder\<close>

subsection \<open>Masks and bits\<close>

lemma mask_bit0: "(w :: byte) AND 1 \<noteq> 0 \<longleftrightarrow> bit w 0"
  using bit_iff_and_push_bit_not_eq_0 [of w 0] by simp

lemma mask_bit1: "(w :: byte) AND 2 \<noteq> 0 \<longleftrightarrow> bit w 1"
  using bit_iff_and_push_bit_not_eq_0 [of w 1] by simp

lemma mask_bit2: "(w :: byte) AND 4 \<noteq> 0 \<longleftrightarrow> bit w 2"
  using bit_iff_and_push_bit_not_eq_0 [of w 2] by simp

text \<open>The low byte and the shifted high byte have no bit in common, so OR adds them.\<close>

lemma or_high_byte: "uint (a :: byte) OR push_bit 8 (uint (b :: byte)) = uint a + 256 * uint b"
proof -
  have "uint a + push_bit 8 (uint b) = uint a OR push_bit 8 (uint b)"
  proof (rule disjunctive_add)
    fix n
    show "\<not> bit (uint a) n \<or> \<not> bit (push_bit 8 (uint b)) n"
      by (auto simp add: bit_uint_iff bit_push_bit_iff)
  qed
  then show ?thesis by (simp add: push_bit_eq_mult)
qed

lemma byte_pair_bound: "uint (a :: byte) + 256 * uint (b :: byte) \<le> 65535"
  using uint_lt2p [of a] uint_lt2p [of b] by simp

lemma byte_bound: "uint (a :: byte) \<le> 65535"
  using uint_lt2p [of a] by simp

subsection \<open>The two branches of the decoder\<close>

lemma parse_short:
  "length data < 2 \<Longrightarrow> parse_heart_rate_data now data = Inl DataLengthInsufficient"
  by (simp add: parse_heart_rate_data_def)

lemma parse_long:
  "2 \<le> length data \<Longrightarrow>
   parse_heart_rate_data now data =
     Inr \<lparr>heart_rate = (if bit (data ! 0) 0 \<and> 3 \<le> length data
                         then uint (data ! 1) + 256 * uint (data ! 2) else uint (data ! 1)),
          sensor_contact = (if bit (data ! 0) 2 then Some (bit (data ! 0) 1) else None),
          flag = data ! 0,
          timestamp = isoformat now\<rparr>"
  by (simp add: parse_heart_rate_data_def Let_def mask_bit0 mask_bit1 mask_bit2 or_high_byte)

subsection \<open>Claims about the decoder\<close>

text \<open>
  C1. A payload of at least two bytes decodes to a sample. With bit 0 of the flags clear
  the heart rate is byte 1 read as an unsigned 8-bit integer; with bit 0 set and at least
  three bytes it is byte 1 plus 256 times byte 2. The sensor contact is \<open>Some True\<close>
  (detected) or \<open>Some False\<close> (not detected) after bit 1 when bit 2 is set, and \<open>None\<close>
  (unsupported) when bit 2 is clear, whatever bit 1 is. The payloads \<open>[0x00, 72]\<close>,
  \<open>[0x06, 80]\<close> and \<open>[0x05, 80, 0x01]\<close> give 72 and unsupported, 80 and detected,
  336 and not detected.
\<close>

theorem parse_decode_postcondition:
  "(2 \<le> length data \<longrightarrow>
      (\<exists>s. parse_heart_rate_data now data = Inr s
         \<and> (\<not> bit (data ! 0) 0 \<longrightarrow> heart_rate s = uint (data ! 1))
         \<and> (bit (data ! 0) 0 \<and> 3 \<le> length data \<longrightarrow>
                heart_rate s = uint (data ! 1) + 256 * uint (data ! 2))
         \<and> (bit (data ! 0) 2 \<and> bit (data ! 0) 1 \<longrightarrow> sensor_contact s = Some True)
         \<and> (bit (data ! 0) 2 \<and> \<not> bit (data ! 0) 1 \<longrightarrow> sensor_contact s = Some False)
         \<and> (\<not> bit (data ! 0) 2 \<longrightarrow> sensor_contact s = None)))
   \<and> map_sum id (\<lambda>s. (heart_rate s, sensor_contact s)) (parse_heart_rate_data now [0x00, 72])
       = Inr (72, None)
   \<and> map_sum id (\<lambda>s. (heart_rate s, sensor_contact s)) (parse_heart_rate_data now [0x06, 80])
       = Inr (80, Some True)
   \<and> map_sum id (\<lambda>s. (heart_rate s, sensor_contact s)) (parse_heart_rate_data now [0x05, 80, 0x01])
       = Inr (336, Some False)"
  by (simp add: parse_long)

theorem parse_decode_postcondition_witness:
  "(\<exists>s. parse_heart_rate_data \<lparr>year = 2024, month = 5, day = 1, hour = 9, minute = 3, second = 7, microsecond = 0\<rparr> [0x06, 80] = Inr s
        \<and> heart_rate s = 80 \<and> sensor_contact s = Some True)
   \<and> (\<exists>s. parse_heart_rate_data \<lparr>year = 2024, month = 5, day = 1, hour = 9, minute = 3, second = 7, microsecond = 0\<rparr> [0x05, 80, 0x01] = Inr s
        \<and> heart_rate s = 336 \<and> sensor_contact s = Some False)
   \<and> (\<exists>s. parse_heart_rate_data \<lparr>year = 2024, month = 5, day = 1, hour = 9, minute = 3, second = 7, microsecond = 0\<rparr> [0x02, 72] = Inr s
        \<and> heart_rate s = 72 \<and> sensor_contact s = None)"
  using parse_decode_postcondition [of "[0x06, 80]" "\<lparr>year = 2024, month = 5, day = 1, hour = 9, minute = 3, second = 7, microsecond = 0\<rparr>"]
        parse_decode_postcondition [of "[0x05, 80, 0x01]" "\<lparr>year = 2024, month = 5, day = 1, hour = 9, minute = 3, second = 7, microsecond = 0\<rparr>"]
        parse_decode_postcondition [of "[0x02, 72]" "\<lparr>year = 2024, month = 5, day = 1, hour = 9, minute = 3, second = 7, microsecond = 0\<rparr>"]
  by simp

text \<open>
  C2, as the specification states it: a payload with bit 0 of the flags set and fewer than
  three bytes is rejected. The guard of line 43 decides otherwise: with two bytes the
  second byte is kept as the heart rate and a sample is returned.
\<close>

theorem parse_wide_flag_two_bytes_counterexample:
  "length [0x01, 80 :: byte] < 3 \<and> bit ([0x01, 80 :: byte] ! 0) 0 \<and>
   parse_heart_rate_data \<lparr>year = 2024, month = 5, day = 1, hour = 9, minute = 3, second = 7, microsecond = 0\<rparr> [0x01, 80]
     = Inr \<lparr>heart_rate = 80, sensor_contact = None, flag = 1,
            timestamp = ''2024-05-01T09:03:07''\<rparr>"
  by (simp add: parse_heart_rate_data_def isoformat_def zpad_def dec.simps digit_def)

text \<open>
  C2, amended. A payload with bit 0 of the flags set is rejected as too short when it has
  fewer than two bytes; with exactly two bytes it is not rejected, and the heart rate of
  the sample is byte 1 read as an unsigned 8-bit integer.
\<close>

theorem parse_wide_flag_short_payload:
  assumes "data \<noteq> []" and "bit (data ! 0) 0"
  shows "(length data < 2 \<longrightarrow> parse_heart_rate_data now data = Inl DataLengthInsufficient)
       \<and> (length data = 2 \<longrightarrow>
            (\<exists>s. parse_heart_rate_data now data = Inr s \<and> heart_rate s = uint (data ! 1)))"
  by (simp add: parse_short parse_long)

theorem parse_wide_flag_short_payload_witness:
  "parse_heart_rate_data \<lparr>year = 2024, month = 5, day = 1, hour = 9, minute = 3, second = 7, microsecond = 0\<rparr> [0x01] = Inl DataLengthInsufficient
   \<and> (\<exists>s. parse_heart_rate_data \<lparr>year = 2024, month = 5, day = 1, hour = 9, minute = 3, second = 7, microsecond = 0\<rparr> [0x01, 80] = Inr s \<and> heart_rate s = 80)"
  using parse_wide_flag_short_payload [of "[0x01]" "\<lparr>year = 2024, month = 5, day = 1, hour = 9, minute = 3, second = 7, microsecond = 0\<rparr>"]
        parse_wide_flag_short_payload [of "[0x01, 80]" "\<lparr>year = 2024, month = 5, day = 1, hour = 9, minute = 3, second = 7, microsecond = 0\<rparr>"]
  by simp

text \<open>C3. Every payload of fewer than two bytes is rejected as too short.\<close>

theorem parse_too_short:
  "length data < 2 \<Longrightarrow> parse_heart_rate_data now data = Inl DataLengthInsufficient"
  by (simp add: parse_heart_rate_data_def)

theorem parse_too_short_witness:
  "parse_heart_rate_data \<lparr>year = 2024, month = 5, day = 1, hour = 9, minute = 3, second = 7, microsecond = 0\<rparr> [] = Inl DataLengthInsufficient
   \<and> parse_heart_rate_data \<lparr>year = 2024, month = 5, day = 1, hour = 9, minute = 3, second = 7, microsecond = 0\<rparr> [0x48] = Inl DataLengthInsufficient"
  using parse_too_short [of "[]" "\<lparr>year = 2024, month = 5, day = 1, hour = 9, minute = 3, second = 7, microsecond = 0\<rparr>"] parse_too_short [of "[0x48]" "\<lparr>year = 2024, month = 5, day = 1, hour = 9, minute = 3, second = 7, microsecond = 0\<rparr>"]
  by simp

text \<open>
  C4, as the specification states it: two calls on the same payload give the same result,
  the time stamp being handed in by the caller. Line 55 reads the clock inside the
  function, so two calls on the same payload one second apart differ.
\<close>

theorem parse_same_payload_counterexample:
  "parse_heart_rate_data \<lparr>year = 2024, month = 5, day = 1, hour = 9, minute = 3, second = 7, microsecond = 0\<rparr> [0x00, 72] \<noteq> parse_heart_rate_data \<lparr>year = 2024, month = 5, day = 1, hour = 9, minute = 3, second = 8, microsecond = 0\<rparr> [0x00, 72]"
  by (simp add: parse_heart_rate_data_def isoformat_def zpad_def dec.simps digit_def)

text \<open>
  C4, amended. The function changes no state, and its result is a function of the payload
  and of the clock reading of line 55: the result at one clock reading is the result at
  any other one with the time stamp replaced by the ISO format of the reading. Whether
  the payload is rejected, and the heart rate, the sensor contact and the flags of the
  sample, depend on the payload alone; the time stamp is produced inside the function.
\<close>

theorem parse_function_of_payload_and_clock:
  "parse_heart_rate_data now data =
     map_sum id (\<lambda>s. s\<lparr>timestamp := isoformat now\<rparr>) (parse_heart_rate_data now' data)"
  by (simp add: parse_heart_rate_data_def Let_def)

text \<open>
  C10. A payload is rejected exactly when it has fewer than two bytes. Every payload of at
  least two bytes gives a sample, also one of two bytes with bit 0 of the flags set, and
  the heart rate of the sample lies between 0 and 65535.
\<close>

theorem parse_returns_sample_from_two_bytes:
  "(2 \<le> length data \<longrightarrow>
      (\<exists>s. parse_heart_rate_data now data = Inr s \<and> 0 \<le> heart_rate s \<and> heart_rate s \<le> 65535))
   \<and> ((\<exists>e. parse_heart_rate_data now data = Inl e) \<longleftrightarrow> length data < 2)
   \<and> (length data = 2 \<and> bit (data ! 0) 0 \<longrightarrow> (\<exists>s. parse_heart_rate_data now data = Inr s))"
proof (cases "length data < 2")
  case True
  then show ?thesis by (simp add: parse_short)
next
  case False
  then have "2 \<le> length data" by simp
  then show ?thesis
    by (simp add: parse_long byte_pair_bound byte_bound)
qed

theorem parse_returns_sample_from_two_bytes_witness:
  "(\<exists>s. parse_heart_rate_data \<lparr>year = 2024, month = 5, day = 1, hour = 9, minute = 3, second = 7, microsecond = 0\<rparr> [0x01, 0xFF, 0xFF] = Inr s
        \<and> 0 \<le> heart_rate s \<and> heart_rate s \<le> 65535)
   \<and> (\<exists>s. parse_heart_rate_data \<lparr>year = 2024, month = 5, day = 1, hour = 9, minute = 3, second = 7, microsecond = 0\<rparr> [0x01, 80] = Inr s)"
  using parse_returns_sample_from_two_bytes [of "[0x01, 0xFF, 0xFF]" "\<lparr>year = 2024, month = 5, day = 1, hour = 9, minute = 3, second = 7, microsecond = 0\<rparr>"]
        parse_returns_sample_from_two_bytes [of "[0x01, 80]" "\<lparr>year = 2024, month = 5, day = 1, hour = 9, minute = 3, second = 7, microsecond = 0\<rparr>"]
  by simp

section \<open>Properties of the history and of the CSV file\<close>

subsection \<open>One save\<close>

lemma slice_last_suffix: "\<exists>older. xs = older @ slice_last n xs"
  unfolding slice_last_def
  by (metis append_Nil append_take_drop_id)

lemma slice_last_length: "n \<le> length xs \<Longrightarrow> length (slice_last n xs) = n"
  by (simp add: slice_last_def)

lemma slice_last_drop: "n \<le> length xs \<Longrightarrow> slice_last n xs = drop (length xs - n) xs"
  by (simp add: slice_last_def)

lemma save_open:
  assumes "csv_writer m = Some wr" and "csv_file m = Some f"
  shows "save_heart_rate_data now d m =
           Inr (m\<lparr>heart_rate_history :=
                    (if length (heart_rate_history m @ [d]) > 1000
                     then slice_last 500 (heart_rate_history m @ [d])
                     else heart_rate_history m @ [d]),
                  csv_file := Some (f\<lparr>buffered := [],
                     flushed := flushed f @ buffered f @ [[CsvStr (strftime_HMS now), CsvInt (heart_rate d)]]\<rparr>)\<rparr>)"
  using assms
  by (simp add: save_heart_rate_data_def write_csv_row_def writerow_def flush_def Let_def)

lemma save_no_writer:
  assumes "csv_writer m = None"
  shows "save_heart_rate_data now d m =
           Inr (m\<lparr>heart_rate_history :=
                    (if length (heart_rate_history m @ [d]) > 1000
                     then slice_last 500 (heart_rate_history m @ [d])
                     else heart_rate_history m @ [d])\<rparr>)"
  using assms
  by (simp add: save_heart_rate_data_def write_csv_row_def Let_def)

lemma save_returns:
  assumes "csv_writer m \<noteq> None \<longrightarrow> csv_file m \<noteq> None"
  shows "\<exists>m'. save_heart_rate_data now d m = Inr m'
           \<and> heart_rate_history m' =
                (if length (heart_rate_history m @ [d]) > 1000
                 then slice_last 500 (heart_rate_history m @ [d])
                 else heart_rate_history m @ [d])
           \<and> csv_writer m' = csv_writer m
           \<and> (csv_file m' \<noteq> None \<longleftrightarrow> csv_file m \<noteq> None)"
proof (cases "csv_writer m")
  case None
  then show ?thesis by (simp add: save_no_writer)
next
  case (Some wr)
  with assms obtain f where "csv_file m = Some f" by auto
  with Some show ?thesis by (simp add: save_open)
qed

lemma save_all_append:
  "save_all (xs @ ys) m = (case save_all xs m of Inl raised \<Rightarrow> Inl raised | Inr m' \<Rightarrow> save_all ys m')"
  by (induction xs arbitrary: m) (auto split: sum.splits)

lemma save_all_below_cap:
  assumes "csv_writer m \<noteq> None \<longrightarrow> csv_file m \<noteq> None"
    and "length (heart_rate_history m) + length tds \<le> 1000"
  shows "\<exists>m'. save_all tds m = Inr m'
           \<and> heart_rate_history m' = heart_rate_history m @ map snd tds
           \<and> (csv_writer m' \<noteq> None \<longrightarrow> csv_file m' \<noteq> None)"
  using assms
proof (induction tds arbitrary: m)
  case Nil
  then show ?case by simp
next
  case (Cons td tds)
  obtain now d where td: "td = (now, d)" by (cases td)
  from Cons.prems(1) obtain m1 where m1: "save_heart_rate_data now d m = Inr m1"
    "heart_rate_history m1 =
                (if length (heart_rate_history m @ [d]) > 1000
                 then slice_last 500 (heart_rate_history m @ [d])
                 else heart_rate_history m @ [d])"
    "csv_writer m1 = csv_writer m" "csv_file m1 \<noteq> None \<longleftrightarrow> csv_file m \<noteq> None"
    using save_returns [of m now d] by blast
  from Cons.prems(2) m1(2) have h1: "heart_rate_history m1 = heart_rate_history m @ [d]" by simp
  have ok1: "csv_writer m1 \<noteq> None \<longrightarrow> csv_file m1 \<noteq> None"
    using Cons.prems(1) m1(3,4) by simp
  have len1: "length (heart_rate_history m1) + length tds \<le> 1000"
    using Cons.prems(2) h1 by simp
  from Cons.IH [OF ok1 len1] obtain m' where
    "save_all tds m1 = Inr m'" "heart_rate_history m' = heart_rate_history m1 @ map snd tds"
    "csv_writer m' \<noteq> None \<longrightarrow> csv_file m' \<noteq> None" by blast
  then show ?case using td m1(1) h1 by simp
qed

lemma save_all_1001:
  assumes ok: "csv_writer m \<noteq> None \<longrightarrow> csv_file m \<noteq> None"
    and empty: "heart_rate_history m = []"
    and len: "length tds = 1001"
  shows "\<exists>m'. save_all tds m = Inr m' \<and> heart_rate_history m' = drop 501 (map snd tds)"
proof -
  define xs where "xs = take 1000 tds"
  obtain now d where y: "tds ! 1000 = (now, d)" by (cases "tds ! 1000")
  have "tds = take 1000 tds @ drop 1000 tds" by simp
  moreover have "drop 1000 tds = [tds ! 1000]"
    using len Cons_nth_drop_Suc [of 1000 tds] by simp
  ultimately have split: "tds = xs @ [(now, d)]"
    using y by (simp add: xs_def)
  have lxs: "length xs = 1000"
    using len by (simp add: xs_def)
  have "length (heart_rate_history m) + length xs \<le> 1000"
    using empty lxs by simp
  from save_all_below_cap [OF ok this] obtain m1 where
    m1: "save_all xs m = Inr m1" "heart_rate_history m1 = map snd xs"
        "csv_writer m1 \<noteq> None \<longrightarrow> csv_file m1 \<noteq> None"
    using empty by auto
  from save_returns [OF m1(3), of now d] obtain m2 where
    m2: "save_heart_rate_data now d m1 = Inr m2"
        "heart_rate_history m2 = slice_last 500 (map snd xs @ [d])"
    using m1(2) lxs by auto
  have "slice_last 500 (map snd xs @ [d]) = drop 501 (map snd xs @ [d])"
    using lxs by (simp add: slice_last_def)
  then have "heart_rate_history m2 = drop 501 (map snd tds)"
    using m2(2) split by simp
  moreover have "save_all tds m = Inr m2"
    using split m1(1) m2(1) by (simp add: save_all_append)
  ultimately show ?thesis by blast
qed

lemma save_open_rows:
  assumes "csv_writer m = Some wr" and "csv_file m = Some f"
  shows "\<exists>m' f'. save_heart_rate_data now d m = Inr m'
           \<and> csv_writer m' = Some wr \<and> csv_file m' = Some f'
           \<and> file_name f' = file_name f
           \<and> file_rows f' = file_rows f @ [[CsvStr (strftime_HMS now), CsvInt (heart_rate d)]]
           \<and> buffered f' = [] \<and> flushed f' = file_rows f'
           \<and> heart_rate_history m' =
                (if length (heart_rate_history m @ [d]) > 1000
                 then slice_last 500 (heart_rate_history m @ [d])
                 else heart_rate_history m @ [d])"
  using assms by (simp add: save_open file_rows_def)

lemma trim_suffix:
  "\<exists>older. h = older @ (if length h > 1000 then slice_last 500 h else h)"
  using slice_last_suffix [of h 500] by auto

lemma save_all_open:
  assumes "csv_writer m = Some wr" and "csv_file m = Some f"
  shows "\<exists>m' f'. save_all tds m = Inr m'
           \<and> csv_writer m' = Some wr \<and> csv_file m' = Some f'
           \<and> file_name f' = file_name f
           \<and> file_rows f' =
                file_rows f @ map (\<lambda>(now, d). [CsvStr (strftime_HMS now), CsvInt (heart_rate d)]) tds
           \<and> (\<exists>older. heart_rate_history m @ map snd tds = older @ heart_rate_history m')"
  using assms
proof (induction tds arbitrary: m f)
  case Nil
  then show ?case by simp
next
  case (Cons td tds)
  obtain now d where td: "td = (now, d)" by (cases td)
  from save_open_rows [OF Cons.prems, of now d] obtain m1 f1 where
    m1: "save_heart_rate_data now d m = Inr m1" "csv_writer m1 = Some wr" "csv_file m1 = Some f1"
        "file_name f1 = file_name f"
        "file_rows f1 = file_rows f @ [[CsvStr (strftime_HMS now), CsvInt (heart_rate d)]]"
        "heart_rate_history m1 =
                (if length (heart_rate_history m @ [d]) > 1000
                 then slice_last 500 (heart_rate_history m @ [d])
                 else heart_rate_history m @ [d])"
    by blast
  from trim_suffix [of "heart_rate_history m @ [d]"] m1(6) obtain o1 where
    o1: "heart_rate_history m @ [d] = o1 @ heart_rate_history m1" by auto
  from Cons.IH [OF m1(2) m1(3)] obtain m' f' o2 where
    m': "save_all tds m1 = Inr m'" "csv_writer m' = Some wr" "csv_file m' = Some f'"
        "file_name f' = file_name f1"
        "file_rows f' =
           file_rows f1 @ map (\<lambda>(now, d). [CsvStr (strftime_HMS now), CsvInt (heart_rate d)]) tds"
        "heart_rate_history m1 @ map snd tds = o2 @ heart_rate_history m'"
    by blast
  have "heart_rate_history m @ map snd (td # tds) = (heart_rate_history m @ [d]) @ map snd tds"
    using td by simp
  also have "\<dots> = o1 @ (heart_rate_history m1 @ map snd tds)"
    using o1 by simp
  also have "\<dots> = (o1 @ o2) @ heart_rate_history m'"
    using m'(6) by simp
  finally have "\<exists>older. heart_rate_history m @ map snd (td # tds) = older @ heart_rate_history m'"
    by blast
  then show ?case
    using td m1 m' by simp
qed

lemma init_csv_file_mon:
  "mon (init_csv_file now w) =
     (mon w)\<lparr>csv_filename := Some (''heart_rate_'' @ strftime_Ymd_HMS now @ ''.csv''),
             csv_file := Some \<lparr>file_name = ''heart_rate_'' @ strftime_Ymd_HMS now @ ''.csv'',
                               buffered = [[CsvStr ''time'', CsvStr ''rate'']], flushed = []\<rparr>,
             csv_writer := Some Writer\<rparr>"
  by (simp add: init_csv_file_def writerow_def Let_def)

lemma dec_small: "n < 10 \<Longrightarrow> dec n = [digit n]"
  by (simp add: dec.simps)

lemma dec_two: "10 \<le> n \<Longrightarrow> n < 100 \<Longrightarrow> dec n = [digit (n div 10), digit (n mod 10)]"
  by (subst dec.simps) (simp add: dec_small)

lemma digit_mod: "digit (n mod 10) = digit n"
  by (simp add: digit_def)

lemma zpad2: "n < 100 \<Longrightarrow> zpad 2 n = [digit (n div 10), digit (n mod 10)]"
proof (cases "n < 10")
  case True
  then show ?thesis by (simp add: zpad_def dec_small digit_def)
next
  case False
  assume "n < 100"
  with False show ?thesis by (simp add: zpad_def dec_two)
qed

lemma strftime_HMS_shape:
  assumes "hour t < 24" and "minute t < 60" and "second t < 60"
  shows "strftime_HMS t =
           [digit (hour t div 10), digit (hour t mod 10), CHR '':'',
            digit (minute t div 10), digit (minute t mod 10), CHR '':'',
            digit (second t div 10), digit (second t mod 10)]"
  using assms by (simp add: strftime_HMS_def zpad2)

lemma handler_bad: "length data < 2 \<Longrightarrow> notification_handler clk data w = w"
  by (simp add: notification_handler_def parse_short)

lemma handler_good_open:
  assumes "2 \<le> length data" and "csv_writer (mon w) = Some wr" and "csv_file (mon w) = Some f"
  shows "\<exists>s m' f'. parse_heart_rate_data (at_parse clk) data = Inr s
           \<and> save_heart_rate_data (at_save clk) s (mon w) = Inr m'
           \<and> notification_handler clk data w =
               w\<lparr>mon := m', out := out w @ [HeartRateLine (strftime_HMS (at_print clk)) (heart_rate s)]\<rparr>"
proof -
  from assms(1) obtain s where s: "parse_heart_rate_data (at_parse clk) data = Inr s"
    by (simp add: parse_long)
  from save_open_rows [OF assms(2,3), of "at_save clk" s] obtain m' where
    "save_heart_rate_data (at_save clk) s (mon w) = Inr m'" by blast
  with s show ?thesis by (simp add: notification_handler_def Let_def)
qed

lemma handle_all_saves:
  assumes "csv_writer (mon w) = Some wr" and "csv_file (mon w) = Some f"
  shows "save_all (saved_samples evs) (mon w) = Inr (mon (handle_all evs w))"
  using assms
proof (induction evs arbitrary: w f)
  case Nil
  then show ?case by simp
next
  case (Cons ev evs)
  obtain clk data where ev: "ev = (clk, data)" by (cases ev)
  show ?case
  proof (cases "parse_heart_rate_data (at_parse clk) data")
    case (Inl err)
    then have "notification_handler clk data w = w"
      by (simp add: notification_handler_def)
    with Inl ev Cons show ?thesis by simp
  next
    case (Inr s)
    from save_open_rows [OF Cons.prems, of "at_save clk" s] obtain m1 f1 where
      m1: "save_heart_rate_data (at_save clk) s (mon w) = Inr m1"
          "csv_writer m1 = Some wr" "csv_file m1 = Some f1"
      by blast
    let ?w1 = "w\<lparr>mon := m1, out := out w @ [HeartRateLine (strftime_HMS (at_print clk)) (heart_rate s)]\<rparr>"
    have step: "notification_handler clk data w = ?w1"
      using Inr m1(1) by (simp add: notification_handler_def Let_def)
    have "save_all (saved_samples evs) (mon ?w1) = Inr (mon (handle_all evs ?w1))"
      using Cons.IH [of ?w1 f1] m1(2,3) by simp
    then show ?thesis
      using ev Inr m1(1) step by simp
  qed
qed

subsection \<open>Claims about the history and the CSV file\<close>

text \<open>
  C5. A call of \<^verbatim>\<open>save_heart_rate_data\<close> that returns leaves at most 1000 samples in
  the history. When the history with the new sample has more than 1000 entries, exactly
  500 are kept, and they are the end of that list, in its order; otherwise the new sample
  is added at the end and nothing is removed. The call returns whenever a monitor that has
  a writer has a file object. Saving 1001 samples, one after the other, to a monitor with
  an empty history leaves 500 entries: the samples number 502 to 1001 in their order.
\<close>

theorem history_bound_and_eviction:
  "(\<forall>m'. save_heart_rate_data now d m = Inr m' \<longrightarrow>
        length (heart_rate_history m') \<le> 1000
      \<and> (1000 < length (heart_rate_history m @ [d]) \<longrightarrow>
           length (heart_rate_history m') = 500
         \<and> (\<exists>older. heart_rate_history m @ [d] = older @ heart_rate_history m'))
      \<and> (length (heart_rate_history m @ [d]) \<le> 1000 \<longrightarrow>
           heart_rate_history m' = heart_rate_history m @ [d]))
   \<and> ((csv_writer m \<noteq> None \<longrightarrow> csv_file m \<noteq> None) \<longrightarrow>
        (\<exists>m'. save_heart_rate_data now d m = Inr m'))
   \<and> ((csv_writer m \<noteq> None \<longrightarrow> csv_file m \<noteq> None) \<and> heart_rate_history m = []
        \<and> length tds = 1001 \<longrightarrow>
        (\<exists>m'. save_all tds m = Inr m' \<and> length (heart_rate_history m') = 500
            \<and> heart_rate_history m' = drop 501 (map snd tds)))"
proof (intro conjI allI impI)
  fix m'
  assume ret: "save_heart_rate_data now d m = Inr m'"
  have h: "heart_rate_history m' =
             (if length (heart_rate_history m @ [d]) > 1000
              then slice_last 500 (heart_rate_history m @ [d])
              else heart_rate_history m @ [d])"
  proof (cases "csv_writer m")
    case None
    with ret show ?thesis by (auto simp add: save_no_writer)
  next
    case (Some wr)
    show ?thesis
    proof (cases "csv_file m")
      case None
      with Some ret show ?thesis
        by (simp add: save_heart_rate_data_def write_csv_row_def Let_def)
    next
      case (Some f)
      with \<open>csv_writer m = Some wr\<close> ret show ?thesis by (auto simp add: save_open)
    qed
  qed
  show "length (heart_rate_history m') \<le> 1000"
    using h by (simp add: slice_last_def)
  show "length (heart_rate_history m') = 500" if "1000 < length (heart_rate_history m @ [d])"
    using h that by (simp add: slice_last_def)
  show "\<exists>older. heart_rate_history m @ [d] = older @ heart_rate_history m'"
    if "1000 < length (heart_rate_history m @ [d])"
    using h trim_suffix [of "heart_rate_history m @ [d]"] by simp
  show "heart_rate_history m' = heart_rate_history m @ [d]"
    if "length (heart_rate_history m @ [d]) \<le> 1000"
    using h that by simp
next
  assume "csv_writer m \<noteq> None \<longrightarrow> csv_file m \<noteq> None"
  from save_returns [OF this, of now d] show "\<exists>m'. save_heart_rate_data now d m = Inr m'"
    by blast
next
  assume a: "(csv_writer m \<noteq> None \<longrightarrow> csv_file m \<noteq> None) \<and> heart_rate_history m = []
        \<and> length tds = 1001"
  then obtain m' where m': "save_all tds m = Inr m'" "heart_rate_history m' = drop 501 (map snd tds)"
    using save_all_1001 [of m tds] by blast
  with a show "\<exists>m'. save_all tds m = Inr m' \<and> length (heart_rate_history m') = 500
            \<and> heart_rate_history m' = drop 501 (map snd tds)"
    by simp
qed

theorem history_bound_and_eviction_witness:
  "(\<exists>m'. save_heart_rate_data \<lparr>year = 2024, month = 5, day = 1, hour = 9, minute = 3, second = 7, microsecond = 0\<rparr> \<lparr>heart_rate = 72, sensor_contact = None, flag = 0, timestamp = ''2024-05-01T09:03:07''\<rparr>
            (HeartRateMonitor_init\<lparr>heart_rate_history := replicate 1000 \<lparr>heart_rate = 80, sensor_contact = Some True, flag = 6, timestamp = ''2024-05-01T09:03:08''\<rparr>\<rparr>) = Inr m'
        \<and> length (heart_rate_history m') = 500)
   \<and> (\<exists>m'. save_all (replicate 1001 (\<lparr>year = 2024, month = 5, day = 1, hour = 9, minute = 3, second = 7, microsecond = 0\<rparr>, \<lparr>heart_rate = 72, sensor_contact = None, flag = 0, timestamp = ''2024-05-01T09:03:07''\<rparr>)) HeartRateMonitor_init = Inr m'
        \<and> length (heart_rate_history m') = 500
        \<and> heart_rate_history m' = replicate 500 \<lparr>heart_rate = 72, sensor_contact = None, flag = 0, timestamp = ''2024-05-01T09:03:07''\<rparr>)"
  using history_bound_and_eviction
          [of "\<lparr>year = 2024, month = 5, day = 1, hour = 9, minute = 3, second = 7, microsecond = 0\<rparr>" "\<lparr>heart_rate = 72, sensor_contact = None, flag = 0, timestamp = ''2024-05-01T09:03:07''\<rparr>" "HeartRateMonitor_init\<lparr>heart_rate_history := replicate 1000 \<lparr>heart_rate = 80, sensor_contact = Some True, flag = 6, timestamp = ''2024-05-01T09:03:08''\<rparr>\<rparr>" "[]"]
        history_bound_and_eviction
          [of "\<lparr>year = 2024, month = 5, day = 1, hour = 9, minute = 3, second = 7, microsecond = 0\<rparr>" "\<lparr>heart_rate = 72, sensor_contact = None, flag = 0, timestamp = ''2024-05-01T09:03:07''\<rparr>" "HeartRateMonitor_init" "replicate 1001 (\<lparr>year = 2024, month = 5, day = 1, hour = 9, minute = 3, second = 7, microsecond = 0\<rparr>, \<lparr>heart_rate = 72, sensor_contact = None, flag = 0, timestamp = ''2024-05-01T09:03:07''\<rparr>)"]
  by (auto simp add: HeartRateMonitor_init_def)

text \<open>
  C6. While the monitor has its writer and its file object, every sample that is saved, and
  so appended to the history, is written to the file once: a run of saves adds one row
  per sample to the rows of the file, in the order of the saves, and the history that
  remains is the end of the old history followed by the saved samples. The program opens
  the CSV file before it subscribes to notifications (lines 224 and 227); from there, under
  every run of notifications, the rows of the file after the header are the rows of the
  samples the callback saved, one each and in the order of arrival.
\<close>

theorem sink_receives_accepted_samples_in_order:
  "(csv_writer m = Some wr \<and> csv_file m = Some f \<longrightarrow>
      (\<exists>m' f'. save_all tds m = Inr m' \<and> csv_writer m' = Some wr \<and> csv_file m' = Some f'
           \<and> file_rows f' =
                file_rows f @ map (\<lambda>(now, d). [CsvStr (strftime_HMS now), CsvInt (heart_rate d)]) tds
           \<and> (\<exists>older. heart_rate_history m @ map snd tds = older @ heart_rate_history m')))
   \<and> (\<exists>f'. csv_file (mon (handle_all evs (init_csv_file now0 w))) = Some f'
        \<and> file_rows f' =
             [CsvStr ''time'', CsvStr ''rate''] #
             map (\<lambda>(now, d). [CsvStr (strftime_HMS now), CsvInt (heart_rate d)]) (saved_samples evs)
        \<and> (\<exists>older. heart_rate_history (mon w) @ map snd (saved_samples evs) =
                      older @ heart_rate_history (mon (handle_all evs (init_csv_file now0 w)))))"
proof (intro conjI impI)
  assume "csv_writer m = Some wr \<and> csv_file m = Some f"
  then show "\<exists>m' f'. save_all tds m = Inr m' \<and> csv_writer m' = Some wr \<and> csv_file m' = Some f'
           \<and> file_rows f' =
                file_rows f @ map (\<lambda>(now, d). [CsvStr (strftime_HMS now), CsvInt (heart_rate d)]) tds
           \<and> (\<exists>older. heart_rate_history m @ map snd tds = older @ heart_rate_history m')"
    using save_all_open [of m wr f tds] by blast
next
  let ?w0 = "init_csv_file now0 w"
  let ?f0 = "\<lparr>file_name = ''heart_rate_'' @ strftime_Ymd_HMS now0 @ ''.csv'',
              buffered = [[CsvStr ''time'', CsvStr ''rate'']], flushed = []\<rparr>"
  have wr: "csv_writer (mon ?w0) = Some Writer" and fl: "csv_file (mon ?w0) = Some ?f0"
    and h0: "heart_rate_history (mon ?w0) = heart_rate_history (mon w)"
    by (simp_all add: init_csv_file_mon)
  have run: "save_all (saved_samples evs) (mon ?w0) = Inr (mon (handle_all evs ?w0))"
    using handle_all_saves [OF wr fl] .
  from save_all_open [OF wr fl, of "saved_samples evs"] run h0
  show "\<exists>f'. csv_file (mon (handle_all evs ?w0)) = Some f'
        \<and> file_rows f' =
             [CsvStr ''time'', CsvStr ''rate''] #
             map (\<lambda>(now, d). [CsvStr (strftime_HMS now), CsvInt (heart_rate d)]) (saved_samples evs)
        \<and> (\<exists>older. heart_rate_history (mon w) @ map snd (saved_samples evs) =
                      older @ heart_rate_history (mon (handle_all evs ?w0)))"
    by (auto simp add: file_rows_def)
qed

theorem sink_receives_accepted_samples_in_order_witness:
  "(\<exists>m' f'. save_all [(\<lparr>year = 2024, month = 5, day = 1, hour = 9, minute = 3, second = 7, microsecond = 0\<rparr>, \<lparr>heart_rate = 72, sensor_contact = None, flag = 0, timestamp = ''2024-05-01T09:03:07''\<rparr>), (\<lparr>year = 2024, month = 5, day = 1, hour = 9, minute = 3, second = 8, microsecond = 0\<rparr>, \<lparr>heart_rate = 80, sensor_contact = Some True, flag = 6, timestamp = ''2024-05-01T09:03:08''\<rparr>)]
        (HeartRateMonitor_init\<lparr>csv_writer := Some Writer, csv_file := Some \<lparr>file_name = ''heart_rate_20240501_090307.csv'', buffered = [[CsvStr ''time'', CsvStr ''rate'']], flushed = []\<rparr>\<rparr>) = Inr m'
      \<and> csv_file m' = Some f'
      \<and> file_rows f' = [[CsvStr ''time'', CsvStr ''rate''],
                        [CsvStr ''09:03:07'', CsvInt 72],
                        [CsvStr ''09:03:08'', CsvInt 80]])
   \<and> (\<exists>f'. csv_file (mon (handle_all [(\<lparr>at_parse = \<lparr>year = 2024, month = 5, day = 1, hour = 9, minute = 3, second = 7, microsecond = 0\<rparr>, at_save = \<lparr>year = 2024, month = 5, day = 1, hour = 9, minute = 3, second = 7, microsecond = 0\<rparr>, at_print = \<lparr>year = 2024, month = 5, day = 1, hour = 9, minute = 3, second = 7, microsecond = 0\<rparr>\<rparr>, [0x00, 72]), (\<lparr>at_parse = \<lparr>year = 2024, month = 5, day = 1, hour = 9, minute = 3, second = 8, microsecond = 0\<rparr>, at_save = \<lparr>year = 2024, month = 5, day = 1, hour = 9, minute = 3, second = 8, microsecond = 0\<rparr>, at_print = \<lparr>year = 2024, month = 5, day = 1, hour = 9, minute = 3, second = 8, microsecond = 0\<rparr>\<rparr>, [0x00]), (\<lparr>at_parse = \<lparr>year = 2024, month = 5, day = 1, hour = 9, minute = 3, second = 8, microsecond = 0\<rparr>, at_save = \<lparr>year = 2024, month = 5, day = 1, hour = 9, minute = 3, second = 8, microsecond = 0\<rparr>, at_print = \<lparr>year = 2024, month = 5, day = 1, hour = 9, minute = 3, second = 8, microsecond = 0\<rparr>\<rparr>, [0x06, 80])]
                               (init_csv_file \<lparr>year = 2024, month = 5, day = 1, hour = 9, minute = 3, second = 7, microsecond = 0\<rparr> \<lparr>mon = HeartRateMonitor_init, out = []\<rparr>))) = Some f'
      \<and> file_rows f' = [[CsvStr ''time'', CsvStr ''rate''],
                        [CsvStr ''09:03:07'', CsvInt 72],
                        [CsvStr ''09:03:08'', CsvInt 80]])"
  using sink_receives_accepted_samples_in_order
          [of "HeartRateMonitor_init\<lparr>csv_writer := Some Writer, csv_file := Some \<lparr>file_name = ''heart_rate_20240501_090307.csv'', buffered = [[CsvStr ''time'', CsvStr ''rate'']], flushed = []\<rparr>\<rparr>"
              Writer "\<lparr>file_name = ''heart_rate_20240501_090307.csv'', buffered = [[CsvStr ''time'', CsvStr ''rate'']], flushed = []\<rparr>" "[(\<lparr>year = 2024, month = 5, day = 1, hour = 9, minute = 3, second = 7, microsecond = 0\<rparr>, \<lparr>heart_rate = 72, sensor_contact = None, flag = 0, timestamp = ''2024-05-01T09:03:07''\<rparr>), (\<lparr>year = 2024, month = 5, day = 1, hour = 9, minute = 3, second = 8, microsecond = 0\<rparr>, \<lparr>heart_rate = 80, sensor_contact = Some True, flag = 6, timestamp = ''2024-05-01T09:03:08''\<rparr>)]"
              "[(\<lparr>at_parse = \<lparr>year = 2024, month = 5, day = 1, hour = 9, minute = 3, second = 7, microsecond = 0\<rparr>, at_save = \<lparr>year = 2024, month = 5, day = 1, hour = 9, minute = 3, second = 7, microsecond = 0\<rparr>, at_print = \<lparr>year = 2024, month = 5, day = 1, hour = 9, minute = 3, second = 7, microsecond = 0\<rparr>\<rparr>, [0x00, 72]), (\<lparr>at_parse = \<lparr>year = 2024, month = 5, day = 1, hour = 9, minute = 3, second = 8, microsecond = 0\<rparr>, at_save = \<lparr>year = 2024, month = 5, day = 1, hour = 9, minute = 3, second = 8, microsecond = 0\<rparr>, at_print = \<lparr>year = 2024, month = 5, day = 1, hour = 9, minute = 3, second = 8, microsecond = 0\<rparr>\<rparr>, [0x00]), (\<lparr>at_parse = \<lparr>year = 2024, month = 5, day = 1, hour = 9, minute = 3, second = 8, microsecond = 0\<rparr>, at_save = \<lparr>year = 2024, month = 5, day = 1, hour = 9, minute = 3, second = 8, microsecond = 0\<rparr>, at_print = \<lparr>year = 2024, month = 5, day = 1, hour = 9, minute = 3, second = 8, microsecond = 0\<rparr>\<rparr>, [0x06, 80])]" "\<lparr>year = 2024, month = 5, day = 1, hour = 9, minute = 3, second = 7, microsecond = 0\<rparr>" "\<lparr>mon = HeartRateMonitor_init, out = []\<rparr>"]
  by (auto simp add: HeartRateMonitor_init_def file_rows_def parse_short parse_long
      strftime_HMS_def zpad_def dec.simps digit_def)

section \<open>Properties of the scan and of the notification callback\<close>

subsection \<open>First device of each address\<close>

lemma first_per_address_subset: "set (first_per_address ds) \<subseteq> set ds"
  by (induction ds rule: first_per_address.induct) auto

lemma first_per_address_addresses:
  "address ` set (first_per_address ds) = address ` set ds"
proof (induction ds rule: first_per_address.induct)
  case 1
  then show ?case by simp
next
  case (2 d ds)
  have "address ` set (d # ds) = insert (address d) (address ` set (filter (\<lambda>e. address e \<noteq> address d) ds))"
    by auto
  with 2 show ?case by simp
qed

lemma first_per_address_distinct: "distinct (map address (first_per_address ds))"
proof (induction ds rule: first_per_address.induct)
  case 1
  then show ?case by simp
next
  case (2 d ds)
  have "address d \<notin> address ` set (filter (\<lambda>e. address e \<noteq> address d) ds)" by auto
  then have "address d \<notin> address ` set (first_per_address (filter (\<lambda>e. address e \<noteq> address d) ds))"
    using first_per_address_addresses [of "filter (\<lambda>e. address e \<noteq> address d) ds"] by blast
  with 2 show ?case by simp
qed

lemma find_filter_other:
  "a \<noteq> b \<Longrightarrow> find (\<lambda>e. address e = a) (filter (\<lambda>e. address e \<noteq> b) ds) = find (\<lambda>e. address e = a) ds"
  by (induction ds) auto

lemma first_per_address_first:
  "d \<in> set (first_per_address ds) \<Longrightarrow> find (\<lambda>e. address e = address d) ds = Some d"
proof (induction ds rule: first_per_address.induct)
  case 1
  then show ?case by simp
next
  case (2 x ds)
  show ?case
  proof (cases "d = x")
    case True
    then show ?thesis by simp
  next
    case False
    with 2(2) have in_rest: "d \<in> set (first_per_address (filter (\<lambda>e. address e \<noteq> address x) ds))"
      by simp
    then have "d \<in> set (filter (\<lambda>e. address e \<noteq> address x) ds)"
      using first_per_address_subset by blast
    then have neq: "address d \<noteq> address x" by simp
    from 2(1) [OF in_rest] have "find (\<lambda>e. address e = address d) ds = Some d"
      using neq by (simp add: find_filter_other)
    with neq show ?thesis by auto
  qed
qed

lemma deliver_devices:
  "map snd (devices_dict (deliver ads st)) =
     map snd (devices_dict st) @
     first_per_address (filter (\<lambda>d. address d \<notin> fst ` set (devices_dict st)) (accepted_devices ads))"
proof (induction ads arbitrary: st)
  case Nil
  then show ?case by (simp add: accepted_devices_def)
next
  case (Cons da ads)
  obtain d a where da: "da = (d, a)" by (cases da)
  show ?case
  proof (cases "HRS_UUID \<in> set (service_uuids a)")
    case False
    then show ?thesis
      using Cons.IH [of st] da by (simp add: detection_callback_def accepted_devices_def)
  next
    case True
    show ?thesis
    proof (cases "address d \<in> fst ` set (devices_dict st)")
      case True
      with \<open>HRS_UUID \<in> set (service_uuids a)\<close> show ?thesis
        using Cons.IH [of st] da by (simp add: detection_callback_def accepted_devices_def)
    next
      case False
      let ?st = "st\<lparr>devices_dict := devices_dict st @ [(address d, d)],
                    printed := printed st @ [FoundDevice (name_or_unknown d) (address d)]\<rparr>"
      have cb: "detection_callback d a st = ?st"
        using True False by (simp add: detection_callback_def)
      have keys: "fst ` set (devices_dict ?st) = insert (address d) (fst ` set (devices_dict st))"
        by simp
      have "filter (\<lambda>e. address e \<notin> fst ` set (devices_dict ?st)) (accepted_devices ads)
            = filter (\<lambda>e. address e \<noteq> address d)
                (filter (\<lambda>e. address e \<notin> fst ` set (devices_dict st)) (accepted_devices ads))"
        by (simp only: keys) (auto intro: filter_cong)
      then show ?thesis
        using Cons.IH [of ?st] da cb True False
        by (simp add: accepted_devices_def)
    qed
  qed
qed

lemma scan_devices:
  "fst (scan_for_heart_rate_devices ads) = first_per_address (accepted_devices ads)"
  using deliver_devices [of ads "\<lparr>devices_dict = [], printed = [Scanning]\<rparr>"]
  by (simp add: scan_for_heart_rate_devices_def Let_def)

lemma accepted_devices_mem:
  "d \<in> set (accepted_devices ads) \<Longrightarrow> \<exists>a. (d, a) \<in> set ads \<and> HRS_UUID \<in> set (service_uuids a)"
  by (auto simp add: accepted_devices_def)

subsection \<open>Claims about the scan, the CSV rows and malformed notifications\<close>

text \<open>
  C7. The scan returns the devices of the accepted advertisements, the first one of each
  address, in the order of their arrival. Every device returned came with an
  advertisement that lists the Heart Rate Service; no two devices returned share an
  address; every address of an accepted advertisement is returned; and the device
  returned for an address is the first accepted one with that address, so its name is the
  name seen first.
\<close>

theorem registry_first_per_address:
  "fst (scan_for_heart_rate_devices ads) = first_per_address (accepted_devices ads)
   \<and> (\<forall>d \<in> set (fst (scan_for_heart_rate_devices ads)).
        \<exists>a. (d, a) \<in> set ads \<and> HRS_UUID \<in> set (service_uuids a))
   \<and> distinct (map address (fst (scan_for_heart_rate_devices ads)))
   \<and> address ` set (fst (scan_for_heart_rate_devices ads)) = address ` set (accepted_devices ads)
   \<and> (\<forall>d \<in> set (fst (scan_for_heart_rate_devices ads)).
        find (\<lambda>e. address e = address d) (accepted_devices ads) = Some d)"
proof -
  have "\<forall>d \<in> set (first_per_address (accepted_devices ads)).
          \<exists>a. (d, a) \<in> set ads \<and> HRS_UUID \<in> set (service_uuids a)"
    using first_per_address_subset accepted_devices_mem by blast
  then show ?thesis
    by (simp add: scan_devices first_per_address_distinct first_per_address_addresses
        first_per_address_first)
qed

theorem registry_first_per_address_witness:
  "fst (scan_for_heart_rate_devices [(\<lparr>address = ''C8:0F:10:00:00:01'', name = Some ''Mi Band''\<rparr>, \<lparr>service_uuids = [''0000180d-0000-1000-8000-00805f9b34fb'']\<rparr>), (\<lparr>address = ''C8:0F:10:00:00:03'', name = Some ''Scale''\<rparr>, \<lparr>service_uuids = [''0000180f-0000-1000-8000-00805f9b34fb'']\<rparr>), (\<lparr>address = ''C8:0F:10:00:00:02'', name = None\<rparr>, \<lparr>service_uuids = [''0000180d-0000-1000-8000-00805f9b34fb'']\<rparr>), (\<lparr>address = ''C8:0F:10:00:00:01'', name = Some ''Mi Smart Band 6''\<rparr>, \<lparr>service_uuids = [''0000180d-0000-1000-8000-00805f9b34fb'']\<rparr>)]) = [\<lparr>address = ''C8:0F:10:00:00:01'', name = Some ''Mi Band''\<rparr>, \<lparr>address = ''C8:0F:10:00:00:02'', name = None\<rparr>]"
  using registry_first_per_address [of "[(\<lparr>address = ''C8:0F:10:00:00:01'', name = Some ''Mi Band''\<rparr>, \<lparr>service_uuids = [''0000180d-0000-1000-8000-00805f9b34fb'']\<rparr>), (\<lparr>address = ''C8:0F:10:00:00:03'', name = Some ''Scale''\<rparr>, \<lparr>service_uuids = [''0000180f-0000-1000-8000-00805f9b34fb'']\<rparr>), (\<lparr>address = ''C8:0F:10:00:00:02'', name = None\<rparr>, \<lparr>service_uuids = [''0000180d-0000-1000-8000-00805f9b34fb'']\<rparr>), (\<lparr>address = ''C8:0F:10:00:00:01'', name = Some ''Mi Smart Band 6''\<rparr>, \<lparr>service_uuids = [''0000180d-0000-1000-8000-00805f9b34fb'']\<rparr>)]"]
  by (simp add: accepted_devices_def HRS_UUID_def)

text \<open>
  C8. \<^verbatim>\<open>init_csv_file\<close> leaves a file whose only row is the header \<open>time, rate\<close>, and
  the header stays the first row under every run of saves. While the monitor has its writer
  and its file object, a save adds exactly one row, made of the time of day of the clock
  reading of line 64 and of the integer heart rate of the sample, and on return no row is
  left in the buffer of the file object: all rows, the new one included, are flushed. The
  time of day has the form \<open>HH:MM:SS\<close>.
\<close>

theorem sink_header_and_rows:
  "(\<exists>f. csv_file (mon (init_csv_file now0 w)) = Some f
        \<and> csv_writer (mon (init_csv_file now0 w)) = Some Writer
        \<and> file_rows f = [[CsvStr ''time'', CsvStr ''rate'']])
   \<and> (\<exists>m' f'. save_all tds (mon (init_csv_file now0 w)) = Inr m' \<and> csv_file m' = Some f'
        \<and> file_rows f' =
             [CsvStr ''time'', CsvStr ''rate''] #
             map (\<lambda>(now, d). [CsvStr (strftime_HMS now), CsvInt (heart_rate d)]) tds)
   \<and> (csv_writer m = Some wr \<and> csv_file m = Some f \<longrightarrow>
        (\<exists>m' f'. save_heart_rate_data now d m = Inr m'
           \<and> csv_writer m' = Some wr \<and> csv_file m' = Some f'
           \<and> file_rows f' = file_rows f @ [[CsvStr (strftime_HMS now), CsvInt (heart_rate d)]]
           \<and> buffered f' = [] \<and> flushed f' = file_rows f'))
   \<and> (hour now < 24 \<and> minute now < 60 \<and> second now < 60 \<longrightarrow>
        strftime_HMS now =
          [digit (hour now div 10), digit (hour now mod 10), CHR '':'',
           digit (minute now div 10), digit (minute now mod 10), CHR '':'',
           digit (second now div 10), digit (second now mod 10)])"
proof (intro conjI impI)
  show "\<exists>f. csv_file (mon (init_csv_file now0 w)) = Some f
        \<and> csv_writer (mon (init_csv_file now0 w)) = Some Writer
        \<and> file_rows f = [[CsvStr ''time'', CsvStr ''rate'']]"
    by (simp add: init_csv_file_mon file_rows_def)
next
  have "csv_writer (mon (init_csv_file now0 w)) = Some Writer"
    by (simp add: init_csv_file_mon)
  moreover have "csv_file (mon (init_csv_file now0 w)) =
      Some \<lparr>file_name = ''heart_rate_'' @ strftime_Ymd_HMS now0 @ ''.csv'',
            buffered = [[CsvStr ''time'', CsvStr ''rate'']], flushed = []\<rparr>"
    by (simp add: init_csv_file_mon)
  ultimately show "\<exists>m' f'. save_all tds (mon (init_csv_file now0 w)) = Inr m' \<and> csv_file m' = Some f'
        \<and> file_rows f' =
             [CsvStr ''time'', CsvStr ''rate''] #
             map (\<lambda>(now, d). [CsvStr (strftime_HMS now), CsvInt (heart_rate d)]) tds"
    using save_all_open [of "mon (init_csv_file now0 w)" Writer _ tds]
    by (auto simp add: file_rows_def)
next
  assume "csv_writer m = Some wr \<and> csv_file m = Some f"
  then show "\<exists>m' f'. save_heart_rate_data now d m = Inr m'
           \<and> csv_writer m' = Some wr \<and> csv_file m' = Some f'
           \<and> file_rows f' = file_rows f @ [[CsvStr (strftime_HMS now), CsvInt (heart_rate d)]]
           \<and> buffered f' = [] \<and> flushed f' = file_rows f'"
    using save_open_rows [of m wr f now d] by blast
next
  assume "hour now < 24 \<and> minute now < 60 \<and> second now < 60"
  then show "strftime_HMS now =
          [digit (hour now div 10), digit (hour now mod 10), CHR '':'',
           digit (minute now div 10), digit (minute now mod 10), CHR '':'',
           digit (second now div 10), digit (second now mod 10)]"
    by (simp add: strftime_HMS_shape)
qed

theorem sink_header_and_rows_witness:
  "(\<exists>m' f'. save_heart_rate_data \<lparr>year = 2024, month = 5, day = 1, hour = 9, minute = 3, second = 8, microsecond = 0\<rparr> \<lparr>heart_rate = 80, sensor_contact = Some True, flag = 6, timestamp = ''2024-05-01T09:03:08''\<rparr>
        (HeartRateMonitor_init\<lparr>csv_writer := Some Writer,
           csv_file := Some \<lparr>file_name = ''heart_rate_20240501_090307.csv'',
                             buffered = [[CsvStr ''time'', CsvStr ''rate'']], flushed = []\<rparr>\<rparr>) = Inr m'
       \<and> csv_file m' = Some f'
       \<and> flushed f' = [[CsvStr ''time'', CsvStr ''rate''], [CsvStr ''09:03:08'', CsvInt 80]]
       \<and> buffered f' = [])
   \<and> strftime_HMS \<lparr>year = 2024, month = 5, day = 1, hour = 9, minute = 3, second = 8, microsecond = 0\<rparr> = ''09:03:08''"
  using sink_header_and_rows
    [of "\<lparr>year = 2024, month = 5, day = 1, hour = 9, minute = 3, second = 7, microsecond = 0\<rparr>" "\<lparr>mon = HeartRateMonitor_init, out = []\<rparr>" "[]"
        "HeartRateMonitor_init\<lparr>csv_writer := Some Writer,
           csv_file := Some \<lparr>file_name = ''heart_rate_20240501_090307.csv'',
                             buffered = [[CsvStr ''time'', CsvStr ''rate'']], flushed = []\<rparr>\<rparr>"
        Writer
        "\<lparr>file_name = ''heart_rate_20240501_090307.csv'',
          buffered = [[CsvStr ''time'', CsvStr ''rate'']], flushed = []\<rparr>"
        "\<lparr>year = 2024, month = 5, day = 1, hour = 9, minute = 3, second = 8, microsecond = 0\<rparr>" "\<lparr>heart_rate = 80, sensor_contact = Some True, flag = 6, timestamp = ''2024-05-01T09:03:08''\<rparr>"]
  by (auto simp add: HeartRateMonitor_init_def file_rows_def digit_def)

text \<open>
  C9, as the specification states it: a notification that fails to parse is logged and
  skipped. The callback prints only after a successful save or in its exception handler;
  for a payload the decoder rejects it prints nothing, so the output is what it was.
\<close>

theorem malformed_notification_logged_counterexample:
  "parse_heart_rate_data \<lparr>year = 2024, month = 5, day = 1, hour = 9, minute = 3, second = 8, microsecond = 0\<rparr> [0x00] = Inl DataLengthInsufficient
   \<and> out (notification_handler \<lparr>at_parse = \<lparr>year = 2024, month = 5, day = 1, hour = 9, minute = 3, second = 8, microsecond = 0\<rparr>, at_save = \<lparr>year = 2024, month = 5, day = 1, hour = 9, minute = 3, second = 8, microsecond = 0\<rparr>, at_print = \<lparr>year = 2024, month = 5, day = 1, hour = 9, minute = 3, second = 8, microsecond = 0\<rparr>\<rparr> [0x00] (init_csv_file \<lparr>year = 2024, month = 5, day = 1, hour = 9, minute = 3, second = 7, microsecond = 0\<rparr> \<lparr>mon = HeartRateMonitor_init, out = []\<rparr>))
       = [SavingTo ''heart_rate_20240501_090307.csv'']
   \<and> out (init_csv_file \<lparr>year = 2024, month = 5, day = 1, hour = 9, minute = 3, second = 7, microsecond = 0\<rparr> \<lparr>mon = HeartRateMonitor_init, out = []\<rparr>) = [SavingTo ''heart_rate_20240501_090307.csv'']"
  by (simp add: notification_handler_def parse_heart_rate_data_def init_csv_file_def
      strftime_Ymd_HMS_def zpad_def dec.simps digit_def writerow_def Let_def)

text \<open>
  C9, amended. A notification whose payload the decoder rejects, that is one of fewer than
  two bytes, is skipped without a line of output: nothing is printed, no sample is
  appended to the history, no row is written and the monitor is unchanged. Hence a session
  that starts with an empty history, opens the CSV file and then receives one such
  notification and one of at least two bytes, in either order, ends with one sample in
  the history and, after the header, one row in the file.
\<close>

theorem malformed_notification_skipped:
  "(length bad < 2 \<longrightarrow> notification_handler clk bad w = w)
   \<and> (length bad < 2 \<and> 2 \<le> length good \<and> heart_rate_history (mon w) = [] \<longrightarrow>
        (\<exists>s f. parse_heart_rate_data (at_parse clk') good = Inr s
           \<and> heart_rate_history (mon (handle_all [(clk, bad), (clk', good)] (init_csv_file now0 w))) = [s]
           \<and> csv_file (mon (handle_all [(clk, bad), (clk', good)] (init_csv_file now0 w))) = Some f
           \<and> file_rows f = [[CsvStr ''time'', CsvStr ''rate''],
                            [CsvStr (strftime_HMS (at_save clk')), CsvInt (heart_rate s)]]
           \<and> handle_all [(clk', good), (clk, bad)] (init_csv_file now0 w)
               = handle_all [(clk, bad), (clk', good)] (init_csv_file now0 w)))"
proof (intro conjI impI)
  assume "length bad < 2"
  then show "notification_handler clk bad w = w" by (rule handler_bad)
next
  assume a: "length bad < 2 \<and> 2 \<le> length good \<and> heart_rate_history (mon w) = []"
  let ?w0 = "init_csv_file now0 w"
  let ?f0 = "\<lparr>file_name = ''heart_rate_'' @ strftime_Ymd_HMS now0 @ ''.csv'',
              buffered = [[CsvStr ''time'', CsvStr ''rate'']], flushed = []\<rparr>"
  have wr: "csv_writer (mon ?w0) = Some Writer" and fl: "csv_file (mon ?w0) = Some ?f0"
    and h0: "heart_rate_history (mon ?w0) = []"
    using a by (simp_all add: init_csv_file_mon)
  from a obtain s where s: "parse_heart_rate_data (at_parse clk') good = Inr s"
    by (auto simp add: parse_long)
  from save_open_rows [OF wr fl, of "at_save clk'" s] h0 obtain m' f' where
    m': "save_heart_rate_data (at_save clk') s (mon ?w0) = Inr m'" "csv_file m' = Some f'"
        "file_rows f' = file_rows ?f0 @ [[CsvStr (strftime_HMS (at_save clk')), CsvInt (heart_rate s)]]"
        "heart_rate_history m' = [s]"
    by auto
  have good: "notification_handler clk' good ?w0 =
          ?w0\<lparr>mon := m', out := out ?w0 @ [HeartRateLine (strftime_HMS (at_print clk')) (heart_rate s)]\<rparr>"
    using s m'(1) by (simp add: notification_handler_def Let_def)
  have bad: "notification_handler clk bad v = v" for v
    using a by (simp add: handler_bad)
  have run: "handle_all [(clk, bad), (clk', good)] ?w0 =
          ?w0\<lparr>mon := m', out := out ?w0 @ [HeartRateLine (strftime_HMS (at_print clk')) (heart_rate s)]\<rparr>"
    using good bad by simp
  have run': "handle_all [(clk', good), (clk, bad)] ?w0 = handle_all [(clk, bad), (clk', good)] ?w0"
    using good bad by simp
  show "\<exists>s f. parse_heart_rate_data (at_parse clk') good = Inr s
           \<and> heart_rate_history (mon (handle_all [(clk, bad), (clk', good)] ?w0)) = [s]
           \<and> csv_file (mon (handle_all [(clk, bad), (clk', good)] ?w0)) = Some f
           \<and> file_rows f = [[CsvStr ''time'', CsvStr ''rate''],
                            [CsvStr (strftime_HMS (at_save clk')), CsvInt (heart_rate s)]]
           \<and> handle_all [(clk', good), (clk, bad)] ?w0
               = handle_all [(clk, bad), (clk', good)] ?w0"
    using s m' run run' by (simp add: file_rows_def)
qed

theorem malformed_notification_skipped_witness:
  "notification_handler \<lparr>at_parse = \<lparr>year = 2024, month = 5, day = 1, hour = 9, minute = 3, second = 7, microsecond = 0\<rparr>, at_save = \<lparr>year = 2024, month = 5, day = 1, hour = 9, minute = 3, second = 7, microsecond = 0\<rparr>, at_print = \<lparr>year = 2024, month = 5, day = 1, hour = 9, minute = 3, second = 7, microsecond = 0\<rparr>\<rparr> [0x00] \<lparr>mon = HeartRateMonitor_init, out = []\<rparr> = \<lparr>mon = HeartRateMonitor_init, out = []\<rparr>
   \<and> (\<exists>s f. heart_rate_history (mon (handle_all [(\<lparr>at_parse = \<lparr>year = 2024, month = 5, day = 1, hour = 9, minute = 3, second = 7, microsecond = 0\<rparr>, at_save = \<lparr>year = 2024, month = 5, day = 1, hour = 9, minute = 3, second = 7, microsecond = 0\<rparr>, at_print = \<lparr>year = 2024, month = 5, day = 1, hour = 9, minute = 3, second = 7, microsecond = 0\<rparr>\<rparr>, [0x00]), (\<lparr>at_parse = \<lparr>year = 2024, month = 5, day = 1, hour = 9, minute = 3, second = 8, microsecond = 0\<rparr>, at_save = \<lparr>year = 2024, month = 5, day = 1, hour = 9, minute = 3, second = 8, microsecond = 0\<rparr>, at_print = \<lparr>year = 2024, month = 5, day = 1, hour = 9, minute = 3, second = 8, microsecond = 0\<rparr>\<rparr>, [0x06, 80])] (init_csv_file \<lparr>year = 2024, month = 5, day = 1, hour = 9, minute = 3, second = 7, microsecond = 0\<rparr> \<lparr>mon = HeartRateMonitor_init, out = []\<rparr>))) = [s]
         \<and> heart_rate s = 80
         \<and> csv_file (mon (handle_all [(\<lparr>at_parse = \<lparr>year = 2024, month = 5, day = 1, hour = 9, minute = 3, second = 7, microsecond = 0\<rparr>, at_save = \<lparr>year = 2024, month = 5, day = 1, hour = 9, minute = 3, second = 7, microsecond = 0\<rparr>, at_print = \<lparr>year = 2024, month = 5, day = 1, hour = 9, minute = 3, second = 7, microsecond = 0\<rparr>\<rparr>, [0x00]), (\<lparr>at_parse = \<lparr>year = 2024, month = 5, day = 1, hour = 9, minute = 3, second = 8, microsecond = 0\<rparr>, at_save = \<lparr>year = 2024, month = 5, day = 1, hour = 9, minute = 3, second = 8, microsecond = 0\<rparr>, at_print = \<lparr>year = 2024, month = 5, day = 1, hour = 9, minute = 3, second = 8, microsecond = 0\<rparr>\<rparr>, [0x06, 80])] (init_csv_file \<lparr>year = 2024, month = 5, day = 1, hour = 9, minute = 3, second = 7, microsecond = 0\<rparr> \<lparr>mon = HeartRateMonitor_init, out = []\<rparr>))) = Some f
         \<and> file_rows f = [[CsvStr ''time'', CsvStr ''rate''], [CsvStr ''09:03:08'', CsvInt 80]])"
  using malformed_notification_skipped [of "[0x00]" "\<lparr>at_parse = \<lparr>year = 2024, month = 5, day = 1, hour = 9, minute = 3, second = 7, microsecond = 0\<rparr>, at_save = \<lparr>year = 2024, month = 5, day = 1, hour = 9, minute = 3, second = 7, microsecond = 0\<rparr>, at_print = \<lparr>year = 2024, month = 5, day = 1, hour = 9, minute = 3, second = 7, microsecond = 0\<rparr>\<rparr>" "\<lparr>mon = HeartRateMonitor_init, out = []\<rparr>" "[0x06, 80]" "\<lparr>at_parse = \<lparr>year = 2024, month = 5, day = 1, hour = 9, minute = 3, second = 8, microsecond = 0\<rparr>, at_save = \<lparr>year = 2024, month = 5, day = 1, hour = 9, minute = 3, second = 8, microsecond = 0\<rparr>, at_print = \<lparr>year = 2024, month = 5, day = 1, hour = 9, minute = 3, second = 8, microsecond = 0\<rparr>\<rparr>" "\<lparr>year = 2024, month = 5, day = 1, hour = 9, minute = 3, second = 7, microsecond = 0\<rparr>"]
  by (auto simp add: HeartRateMonitor_init_def parse_long strftime_HMS_def zpad_def dec.simps digit_def)

end
